theory Spec2Isabelle
  imports Complex_Main
begin

section \<open>Values and errors\<close>

text \<open>
  The dashboard (\<^verbatim>\<open>src/main.py\<close>) reads one CSV file into a pandas table and computes
  counts over it. A cell of a column that \<^verbatim>\<open>read_csv\<close> produced is missing (\<^verbatim>\<open>NaN\<close>), a
  string, or a (finite) number. \<^verbatim>\<open>parse_sub_category\<close> also accepts a Python list; the
  lists that matter here are lists of strings, since those are what the function itself
  returns.
\<close>

datatype cell = NaN | Str string | Num rat

text \<open>
  The type pandas gives a column. \<^verbatim>\<open>read_csv\<close> makes a column \<open>Object\<close> when a field of it
  is text (its cells are then strings or missing), \<open>Int64\<close> when every field is an
  integer, and \<open>Float64\<close> when the fields are numbers with a missing or fractional one
  among them, or when every field is empty. Selecting rows keeps the type of a column.
\<close>

datatype dtype = Object | Int64 | Float64

datatype pyval = Cell cell | Lst "string list"

datatype exn = ValueError | KeyError | AttributeError | ZeroDivisionError

section \<open>String primitives of Python\<close>

text \<open>
  \<^verbatim>\<open>str.isspace\<close> on the characters below 256: tab, line feed, vertical tab, form feed,
  carriage return, the four separators 0x1C..0x1F, space, next line (0x85) and the
  no-break space (0xA0). \<^verbatim>\<open>str.strip()\<close> removes exactly these from both ends.
\<close>

definition is_space :: "char \<Rightarrow> bool" where
  "is_space c = (c \<in> set [CHR 0x09, CHR 0x0A, CHR 0x0B, CHR 0x0C, CHR 0x0D,
                          CHR 0x1C, CHR 0x1D, CHR 0x1E, CHR 0x1F, CHR 0x20,
                          CHR 0x85, CHR 0xA0])"

definition strip_chars :: "(char \<Rightarrow> bool) \<Rightarrow> string \<Rightarrow> string" where
  "strip_chars p s = rev (dropWhile p (rev (dropWhile p s)))"

text \<open>\<^verbatim>\<open>s.strip()\<close>\<close>

definition strip :: "string \<Rightarrow> string" where
  "strip s = strip_chars is_space s"

text \<open>\<^verbatim>\<open>s.strip("'\"")\<close>: the apostrophe is 0x27, the double quote 0x22.\<close>

definition is_quote :: "char \<Rightarrow> bool" where
  "is_quote c = (c = CHR 0x27 \<or> c = CHR 0x22)"

definition strip_quotes :: "string \<Rightarrow> string" where
  "strip_quotes s = strip_chars is_quote s"

text \<open>
  \<^verbatim>\<open>s.split(sep)\<close> for a one-character separator: the pieces between the separators, empty
  pieces included, so the result of splitting the empty string is one empty piece.
  \<open>split_from\<close> scans the string and holds the characters of the current piece, the last
  one first.
\<close>

fun split_from :: "char \<Rightarrow> string \<Rightarrow> string \<Rightarrow> string list" where
  "split_from sep piece [] = [rev piece]"
| "split_from sep piece (c # cs) =
     (if c = sep then rev piece # split_from sep [] cs
      else split_from sep (c # piece) cs)"

definition split :: "char \<Rightarrow> string \<Rightarrow> string list" where
  "split sep s = split_from sep [] s"

text \<open>\<^verbatim>\<open>s.startswith(c)\<close> and \<^verbatim>\<open>s.endswith(c)\<close> for a one-character argument.\<close>

definition startswith :: "string \<Rightarrow> char \<Rightarrow> bool" where
  "startswith s c = (case s of [] \<Rightarrow> False | x # _ \<Rightarrow> x = c)"

definition endswith :: "string \<Rightarrow> char \<Rightarrow> bool" where
  "endswith s c = (case rev s of [] \<Rightarrow> False | x # _ \<Rightarrow> x = c)"

section \<open>parse\_sub\_category\<close>

text \<open>
  \<^verbatim>\<open>if pd.isna(value):\<close> is the first test of the function. For a scalar \<^verbatim>\<open>pd.isna\<close> is a
  Boolean. For a list it is a NumPy array with one Boolean per element, and \<^verbatim>\<open>if\<close> asks
  for the truth value of that array: the element itself when there is one element, a
  \<^verbatim>\<open>ValueError\<close> when there are two or more. The truth value of an empty array is False
  with a deprecation warning in NumPy before 2.2 and a \<^verbatim>\<open>ValueError\<close> from 2.2 on;
  \<open>strict\<close> says which of the two NumPy versions runs.
\<close>

definition array_truth :: "bool \<Rightarrow> bool list \<Rightarrow> exn + bool" where
  "array_truth strict bs =
     (case bs of
        [] \<Rightarrow> (if strict then Inl ValueError else Inr False)
      | [b] \<Rightarrow> Inr b
      | _ # _ # _ \<Rightarrow> Inl ValueError)"

fun isna_truth :: "bool \<Rightarrow> pyval \<Rightarrow> exn + bool" where
  "isna_truth strict (Cell NaN) = Inr True"
| "isna_truth strict (Cell (Str s)) = Inr False"
| "isna_truth strict (Cell (Num n)) = Inr False"
| "isna_truth strict (Lst xs) = array_truth strict (map (\<lambda>x. False) xs)"

text \<open>
  The part of the function that runs on a string (source lines 52 to 75). Every operation
  in it is total on Python strings (\<^verbatim>\<open>strip\<close>, \<^verbatim>\<open>startswith\<close>, \<^verbatim>\<open>endswith\<close>, slicing,
  \<^verbatim>\<open>split\<close> with a non-empty separator), so the \<^verbatim>\<open>except\<close> branch of the \<^verbatim>\<open>try\<close> around the
  bracket case has nothing to catch. \<^verbatim>\<open>value[1:-1]\<close> drops the first and the last character.
\<close>

definition parse_str :: "string \<Rightarrow> string list" where
  "parse_str v0 =
     (let value = strip v0 in
      if value = [] then []
      else if startswith value (CHR ''['') \<and> endswith value (CHR '']'') then
        (let value' = strip (butlast (tl value)) in
         if value' = [] then []
         else (let items = map (\<lambda>item. strip_quotes (strip item)) (split (CHR '','') value')
               in filter (\<lambda>item. item \<noteq> []) items))
      else if CHR '','' \<in> set value then
        (let items = map strip (split (CHR '','') value)
         in filter (\<lambda>item. item \<noteq> []) items)
      else [strip value])"

definition parse_sub_category :: "bool \<Rightarrow> pyval \<Rightarrow> exn + string list" where
  "parse_sub_category strict value =
     (case isna_truth strict value of
        Inl e \<Rightarrow> Inl e
      | Inr True \<Rightarrow> Inr []
      | Inr False \<Rightarrow>
          (case value of
             Lst xs \<Rightarrow> Inr xs
           | Cell (Str s) \<Rightarrow> Inr (parse_str s)
           | Cell _ \<Rightarrow> Inr []))"

section \<open>Tables\<close>

text \<open>
  One row of \<^verbatim>\<open>ncts_with_zipcode.csv\<close> as \<^verbatim>\<open>read_csv\<close> gives it. \<open>idx\<close> is the row's index
  label (\<^verbatim>\<open>read_csv\<close> numbers the rows, so the labels of a loaded table are distinct and
  increasing). A cell of \<open>other_language_criteria\<close> is missing or a string; when the column
  is not of type \<open>Object\<close> its cells are not looked at beyond being missing or not. The two
  flag columns are numeric: a cell is missing or a number. The fields of a column that the
  file does not have are not looked at; \<open>columns\<close> lists the columns present, each with
  its type.
\<close>

record trial =
  idx :: nat
  category :: cell
  sub_category :: cell
  english_is_inclusion :: "int option"
  non_english_is_exclusion :: "int option"
  other_language_criteria :: "string option"
  first_zipcode :: cell

record 'r frame =
  columns :: "(string \<times> dtype) list"
  rows :: "'r list"

text \<open>\<^verbatim>\<open>c in df.columns\<close> is \<open>dtype_of df c \<noteq> None\<close>.\<close>

definition dtype_of :: "'r frame \<Rightarrow> string \<Rightarrow> dtype option" where
  "dtype_of df c = map_of (columns df) c"

text \<open>\<^verbatim>\<open>Series.apply(f)\<close> for an \<open>f\<close> that may raise: the first exception ends the call.\<close>

primrec apply_series :: "('a \<Rightarrow> exn + 'b) \<Rightarrow> 'a list \<Rightarrow> exn + 'b list" where
  "apply_series f [] = Inr []"
| "apply_series f (x # xs) =
     (case f x of
        Inl e \<Rightarrow> Inl e
      | Inr y \<Rightarrow> (case apply_series f xs of Inl e \<Rightarrow> Inl e | Inr ys \<Rightarrow> Inr (y # ys)))"

text \<open>
  \<^verbatim>\<open>Series.unique()\<close>: the distinct values in the order of their first occurrence.
  \<^verbatim>\<open>Series.value_counts()\<close>: each distinct value with the number of its occurrences, the
  most frequent first. pandas leaves the order of values with equal counts open; here they
  stay in the order of their first occurrence. Missing values are dropped by the caller
  before the count, as \<^verbatim>\<open>value_counts\<close> does.
\<close>

definition unique :: "'a list \<Rightarrow> 'a list" where
  "unique xs = rev (remdups (rev xs))"

definition value_counts :: "'a list \<Rightarrow> ('a \<times> nat) list" where
  "value_counts xs =
     sort_key (\<lambda>p. - int (snd p)) (map (\<lambda>v. (v, count_list xs v)) (unique xs))"

section \<open>Other-language counts\<close>

text \<open>
  \<^verbatim>\<open>count_other_languages\<close> (source lines 87 to 99). \<^verbatim>\<open>notna().sum()\<close> counts the cells that
  are not missing. \<^verbatim>\<open>dropna()\<close> keeps the strings. The \<^verbatim>\<open>.str\<close> accessor that follows exists
  for a column of type \<open>Object\<close> only: on a numeric column pandas raises
  \<^verbatim>\<open>AttributeError\<close> (\<^verbatim>\<open>Can only use .str accessor with string values\<close>), also when the
  column has no cell left. \<^verbatim>\<open>str.split(',')\<close> makes a list of each string, \<^verbatim>\<open>explode()\<close>
  puts the pieces in one column (a split never gives an empty list), and \<^verbatim>\<open>str.strip()\<close>
  trims each piece.
\<close>

definition count_other_languages ::
  "trial frame \<Rightarrow> exn + nat \<times> nat \<times> (string \<times> nat) list" where
  "count_other_languages df =
     (case dtype_of df ''other_language_criteria'' of
        Some dt \<Rightarrow>
          (let col = map other_language_criteria (rows df);
               total_with_other = length (filter (\<lambda>c. c \<noteq> None) col);
               dropped = concat (map (\<lambda>c. case c of None \<Rightarrow> [] | Some s \<Rightarrow> [s]) col)
           in if dt = Object then
                (let all_languages = map strip (concat (map (split (CHR '','')) dropped));
                     total_languages = length all_languages;
                     language_counts = value_counts all_languages
                 in Inr (total_with_other, total_languages, language_counts))
              else Inl AttributeError)
      | None \<Rightarrow> Inr (0, 0, []))"

section \<open>Category and sub-category selection\<close>

text \<open>Source lines 170 to 173.\<close>

definition filtered_df :: "trial frame \<Rightarrow> string \<Rightarrow> trial frame" where
  "filtered_df original_df selected_category =
     (if selected_category = ''All Categories'' then original_df
      else original_df\<lparr>rows := filter (\<lambda>r. category r = Str selected_category)
                                       (rows original_df)\<rparr>)"

text \<open>
  Source lines 270 to 272. \<^verbatim>\<open>apply(parse_sub_category)\<close> puts a list into every cell of
  the column. \<^verbatim>\<open>DataFrame.explode\<close> then gives one row per element of the list, each with
  the other fields and the index label of the row it came from, and for an empty list one
  row whose cell is missing.
\<close>

definition explode_row :: "trial \<Rightarrow> string list \<Rightarrow> trial list" where
  "explode_row r toks =
     (if toks = [] then [r\<lparr>sub_category := NaN\<rparr>]
      else map (\<lambda>t. r\<lparr>sub_category := Str t\<rparr>) toks)"

definition sub_cat_df :: "bool \<Rightarrow> trial frame \<Rightarrow> exn + trial frame" where
  "sub_cat_df strict filtered =
     (case apply_series (\<lambda>r. parse_sub_category strict (Cell (sub_category r))) (rows filtered) of
        Inl e \<Rightarrow> Inl e
      | Inr parsed \<Rightarrow>
          Inr (filtered\<lparr>rows := concat (map2 explode_row (rows filtered) parsed)\<rparr>))"

text \<open>Source line 279: the counts of the exploded column, missing cells left out.\<close>

definition sub_cat_counts :: "trial frame \<Rightarrow> (string \<times> nat) list" where
  "sub_cat_counts exploded =
     value_counts (concat (map (\<lambda>r. case sub_category r of Str t \<Rightarrow> [t] | _ \<Rightarrow> []) (rows exploded)))"

text \<open>Source lines 297 to 300.\<close>

definition sub_cat_filtered_df :: "bool \<Rightarrow> trial frame \<Rightarrow> string \<Rightarrow> exn + trial frame" where
  "sub_cat_filtered_df strict filtered selected_sub_category =
     (if selected_sub_category = ''All Sub-Categories'' then Inr filtered
      else
        (case apply_series
                (\<lambda>r. case parse_sub_category strict (Cell (sub_category r)) of
                        Inl e \<Rightarrow> Inl e
                      | Inr toks \<Rightarrow> Inr (selected_sub_category \<in> set toks))
                (rows filtered) of
           Inl e \<Rightarrow> Inl e
         | Inr keep \<Rightarrow>
             Inr (filtered\<lparr>rows := map fst (filter snd (zip (rows filtered) keep))\<rparr>)))"

text \<open>
  What \<open>parse_sub_category\<close> computes on a cell of a loaded table, where the list case
  cannot arise (lemma \<open>parse_sub_category_Cell\<close> below).
\<close>

fun cell_tokens :: "cell \<Rightarrow> string list" where
  "cell_tokens (Str s) = parse_str s"
| "cell_tokens NaN = []"
| "cell_tokens (Num n) = []"

section \<open>Geographical table\<close>

text \<open>
  \<^verbatim>\<open>astype(str)\<close> turns a missing cell into the text \<^verbatim>\<open>nan\<close> and leaves a string as it
  is. How it prints a number depends on the type of the column and, for \<open>Float64\<close>, on the
  printing of floating-point numbers (\<^verbatim>\<open>94305.0\<close>, \<^verbatim>\<open>1e+16\<close>), which is not modelled:
  \<open>num_str\<close> stands for the printing that pandas applies to the numbers of the column.
\<close>

fun astype_str :: "(rat \<Rightarrow> string) \<Rightarrow> cell \<Rightarrow> string" where
  "astype_str num_str NaN = ''nan''"
| "astype_str num_str (Str s) = s"
| "astype_str num_str (Num n) = num_str n"

text \<open>
  \<^verbatim>\<open>str.extract(r'(\d{5})')\<close>: the regular expression is searched from the left, and the
  first position where five digits follow one another gives the match (\<open>five_digits_at\<close>
  says that the pattern matches at the start of a string). Nothing in the pattern looks at
  the character after the fifth digit.
\<close>

definition is_digit :: "char \<Rightarrow> bool" where
  "is_digit c = (c \<in> set ''0123456789'')"

definition five_digits_at :: "string \<Rightarrow> bool" where
  "five_digits_at s = (5 \<le> length s \<and> list_all is_digit (take 5 s))"

fun extract_5_digits :: "string \<Rightarrow> string option" where
  "extract_5_digits [] = None"
| "extract_5_digits (c # cs) =
     (if five_digits_at (c # cs) then Some (take 5 (c # cs)) else extract_5_digits cs)"



record geo_trial = trial +
  zip_clean :: string
  state_code :: cell

text \<open>
  \<^verbatim>\<open>load_geographical_data\<close> (source lines 107 to 127). The geocoder is not part of the
  repository: \<open>query_postal_code z\<close> is the state code its table has for the postal code
  \<open>z\<close>, or \<open>None\<close> when the code is unknown or its entry has no state code. The geocoder
  answers with one line per code asked; \<^verbatim>\<open>dropna()\<close> removes the lines without a state
  code, and \<^verbatim>\<open>dict(zip(..))\<close> keeps the last line of a code. \<^verbatim>\<open>Series.map\<close> of a dictionary
  gives a missing value for a key the dictionary does not have. Reading a column that the
  file does not have raises \<^verbatim>\<open>KeyError\<close>.
\<close>

definition load_geographical_data ::
  "(string \<Rightarrow> string option) \<Rightarrow> (rat \<Rightarrow> string) \<Rightarrow> trial frame \<Rightarrow> exn + geo_trial frame" where
  "load_geographical_data query_postal_code num_str df =
     (if dtype_of df ''first_zipcode'' = None then Inl KeyError
      else
        (let extracted = map (\<lambda>r. extract_5_digits (astype_str num_str (first_zipcode r)))
                             (rows df);
             kept = concat (map2 (\<lambda>r z. case z of None \<Rightarrow> [] | Some z' \<Rightarrow> [(r, z')])
                                 (rows df) extracted);
             unique_zips = unique (map snd kept);
             geo_data = concat (map (\<lambda>z. case query_postal_code z of
                                            None \<Rightarrow> [] | Some st \<Rightarrow> [(z, st)]) unique_zips);
             zip_to_state = map_of (rev geo_data)
         in Inr \<lparr>columns = columns df @ [(''zip_clean'', Object), (''state_code'', Object)],
                 rows = map (\<lambda>(r, z). trial.extend r
                               (geo_trial.fields z
                                  (case zip_to_state z of None \<Rightarrow> NaN | Some st \<Rightarrow> Str st)))
                            kept\<rparr>))"


text \<open>
  Source lines 431 to 443. The index labels of the geo rows of the state are intersected
  with the labels of the base table, and \<^verbatim>\<open>loc\<close> takes the base rows with these labels,
  in the order of the base table.
\<close>

definition state_trials_original ::
  "trial frame \<Rightarrow> geo_trial frame \<Rightarrow> string \<Rightarrow> trial frame" where
  "state_trials_original original_df geo_df selected_state =
     (if selected_state = ''All States'' then original_df
      else
        (let state_trials_geo = filter (\<lambda>g. state_code g = Str selected_state) (rows geo_df);
             state_trial_ids = map idx state_trials_geo
         in original_df\<lparr>rows := filter (\<lambda>r. idx r \<in> set state_trial_ids)
                                         (rows original_df)\<rparr>))"

section \<open>Percentages and averages\<close>

text \<open>
  A quotient is a floating-point number, and neither its value nor its rounding for the
  display is modelled. A division is modelled by its denominator: a zero denominator is
  an error whatever the operands are (Python raises \<^verbatim>\<open>ZeroDivisionError\<close> for its own
  numbers; NumPy would answer with \<^verbatim>\<open>inf\<close> or \<^verbatim>\<open>nan\<close> and a warning), and any other
  denominator gives a quotient. What the page then has for a metric is the quotient, the
  text \<^verbatim>\<open>N/A\<close>, or nothing; an exception ends the run.
\<close>

datatype metric = Quotient | Not_applicable | Nothing_shown | Raised exn

definition truediv :: "int \<Rightarrow> metric" where
  "truediv denominator = (if denominator = 0 then Raised ZeroDivisionError else Quotient)"

text \<open>
  Source lines 194 and 195 (and 200, 210, 310, 316, 326): the caption with a percentage of
  the selected trials, written under \<^verbatim>\<open>if len(df) > 0\<close>; there is no \<^verbatim>\<open>else\<close>.
\<close>

definition caption :: "nat \<Rightarrow> metric" where
  "caption len_df = (if len_df > 0 then truediv (int len_df) else Nothing_shown)"

text \<open>Source lines 215 and 216 (and 331, 490).\<close>

definition avg_langs :: "nat \<Rightarrow> metric" where
  "avg_langs total_with_other =
     (if total_with_other > 0 then truediv (int total_with_other) else Not_applicable)"

text \<open>
  Source lines 220 to 227 (and 336 to 343, 495 to 502): the percentage column of the
  language chart, one division by \<^verbatim>\<open>total_with_other\<close> for every language, computed when
  \<^verbatim>\<open>language_counts\<close> is not empty.
\<close>

definition lang_percentages :: "nat \<Rightarrow> (string \<times> nat) list \<Rightarrow> metric list" where
  "lang_percentages total_with_other language_counts =
     (if language_counts \<noteq> []
      then map (\<lambda>p. truediv (int total_with_other)) language_counts
      else [])"

text \<open>
  The metrics of the first tab for a selection \<open>df\<close> (source lines 191 to 227 for the
  category selection, 307 to 343 for the sub-category selection), in the order of the
  source. The two captions of the English criteria come before the call of
  \<^verbatim>\<open>count_other_languages\<close>, whose exception ends the run.
\<close>

definition tab1_metrics :: "trial frame \<Rightarrow> metric list" where
  "tab1_metrics df =
     [caption (length (rows df)), caption (length (rows df))]
     @ (case count_other_languages df of
          Inl e \<Rightarrow> [Raised e]
        | Inr (total_with_other, total_languages, language_counts) \<Rightarrow>
            [caption (length (rows df)), avg_langs total_with_other]
            @ lang_percentages total_with_other language_counts)"

text \<open>
  Source lines 446 to 536, as a function of the three values they read: the number of
  trials of the selection, the number of trials of the base table and the result of
  \<^verbatim>\<open>count_other_languages\<close> on the selection. Everything is under \<^verbatim>\<open>if total_trials > 0\<close>:
  the share of all trials divides by \<^verbatim>\<open>len(original_df)\<close>, the three captions divide by
  \<^verbatim>\<open>total_trials\<close>. Otherwise the page says that no trials were found.
\<close>

definition state_metrics ::
  "nat \<Rightarrow> nat \<Rightarrow> exn + nat \<times> nat \<times> (string \<times> nat) list \<Rightarrow> metric list" where
  "state_metrics total_trials len_original counts =
     (if total_trials > 0 then
        [truediv (int len_original), truediv (int total_trials), truediv (int total_trials)]
        @ (case counts of
             Inl e \<Rightarrow> [Raised e]
           | Inr (total_with_other, total_languages, language_counts) \<Rightarrow>
               [truediv (int total_trials), avg_langs total_with_other]
               @ lang_percentages total_with_other language_counts)
      else [Nothing_shown])"

text \<open>The metrics of the second tab (source lines 393 to 536).\<close>

definition tab2_metrics :: "trial frame \<Rightarrow> geo_trial frame \<Rightarrow> string \<Rightarrow> metric list" where
  "tab2_metrics original_df geo_df selected_state =
     (if rows geo_df \<noteq> [] \<and> dtype_of geo_df ''state_code'' \<noteq> None then
        (let selection = state_trials_original original_df geo_df selected_state
         in state_metrics (length (rows selection)) (length (rows original_df))
              (count_other_languages selection))
      else [])"

section \<open>Scenarios of the specification\<close>

text \<open>
  The two records of the end-to-end scenario. The scenario gives five fields; the other
  two columns are not in the table. The second record's \<open>other_language_criteria\<close> is
  written \<^verbatim>\<open>""\<close> in the spec; \<^verbatim>\<open>read_csv\<close> makes the missing value of an empty field, so
  the scenario table is \<open>scenario_table None\<close>.
\<close>

definition scenario_columns :: "(string \<times> dtype) list" where
  "scenario_columns = [(''category'', Object), (''sub_category'', Object),
                       (''english_is_inclusion'', Int64),
                       (''other_language_criteria'', Object)]"

definition scenario_record_1 :: trial where
  "scenario_record_1 =
     \<lparr>idx = 1, category = Str ''CVD'', sub_category = Str ''Hypertension, Stroke'',
      english_is_inclusion = Some 1, non_english_is_exclusion = None,
      other_language_criteria = Some ''Spanish'', first_zipcode = NaN\<rparr>"

definition scenario_record_2 :: "string option \<Rightarrow> trial" where
  "scenario_record_2 other =
     \<lparr>idx = 2, category = Str ''CVD'', sub_category = Str ''Hypertension'',
      english_is_inclusion = Some 0, non_english_is_exclusion = None,
      other_language_criteria = other, first_zipcode = NaN\<rparr>"

definition scenario_table :: "string option \<Rightarrow> trial frame" where
  "scenario_table other =
     \<lparr>columns = scenario_columns, rows = [scenario_record_1, scenario_record_2 other]\<rparr>"

text \<open>
  The state scenario: a base table with the identifiers 1, 2 and 3, where record 2 has no
  usable postal code and the geocoder places the postal codes of records 1 and 3 in
  California.
\<close>

definition state_scenario_record :: "nat \<Rightarrow> cell \<Rightarrow> trial" where
  "state_scenario_record i z =
     \<lparr>idx = i, category = Str ''CVD'', sub_category = NaN,
      english_is_inclusion = None, non_english_is_exclusion = None,
      other_language_criteria = None, first_zipcode = z\<rparr>"

definition state_scenario_base :: "trial frame" where
  "state_scenario_base =
     \<lparr>columns = [(''category'', Object), (''first_zipcode'', Object)],
      rows = [state_scenario_record 1 (Str ''94305''),
              state_scenario_record 2 (Str ''n/a''),
              state_scenario_record 3 (Str ''90001-1234'')]\<rparr>"

definition state_scenario_geocoder :: "string \<Rightarrow> string option" where
  "state_scenario_geocoder z = (if z = ''94305'' \<or> z = ''90001'' then Some ''CA'' else None)"

definition state_scenario_geo :: "geo_trial frame" where
  "state_scenario_geo =
     \<lparr>columns = [(''category'', Object), (''first_zipcode'', Object),
                 (''zip_clean'', Object), (''state_code'', Object)],
      rows = [trial.extend (state_scenario_record 1 (Str ''94305''))
                (geo_trial.fields ''94305'' (Str ''CA'')),
              trial.extend (state_scenario_record 3 (Str ''90001-1234''))
                (geo_trial.fields ''90001'' (Str ''CA''))]\<rparr>"

text \<open>
  The end-to-end table with a third record that has no sub-category, and a table whose
  only record carries a nine-digit postal code (ZIP+4 written without the hyphen).
\<close>

definition scenario_record_3 :: trial where
  "scenario_record_3 =
     \<lparr>idx = 3, category = Str ''Metabolic'', sub_category = NaN,
      english_is_inclusion = Some 0, non_english_is_exclusion = None,
      other_language_criteria = None, first_zipcode = NaN\<rparr>"

definition scenario_table_3 :: "trial frame" where
  "scenario_table_3 =
     \<lparr>columns = scenario_columns,
      rows = [scenario_record_1, scenario_record_2 None, scenario_record_3]\<rparr>"

text \<open>
  The postal codes of the scenario tables are text, so no number is ever printed for
  them; \<open>text_only\<close> fills the place of the printing of numbers there.
\<close>

definition text_only :: "rat \<Rightarrow> string" where
  "text_only n = []"

definition zip_plus4_table :: "trial frame" where
  "zip_plus4_table =
     \<lparr>columns = [(''category'', Object), (''first_zipcode'', Object)],
      rows = [state_scenario_record 4 (Str ''941051234'')]\<rparr>"

text \<open>
  What \<^verbatim>\<open>read_csv\<close> makes of a file with two records in which every
  \<open>other_language_criteria\<close> field is empty: the column is of type \<open>Float64\<close> and all its
  cells are missing.
\<close>

definition no_language_table :: "trial frame" where
  "no_language_table =
     \<lparr>columns = [(''category'', Object), (''sub_category'', Object),
                 (''english_is_inclusion'', Int64),
                 (''other_language_criteria'', Float64)],
      rows = [scenario_record_2 None, scenario_record_3]\<rparr>"

section \<open>Properties of the string primitives\<close>

lemmas parse_eval =
  parse_sub_category_def parse_str_def strip_def strip_chars_def is_space_def split_def
  startswith_def endswith_def strip_quotes_def is_quote_def array_truth_def

lemma rstrip_prefix: "rev (dropWhile p (rev xs)) @ rev (takeWhile p (rev xs)) = xs"
proof -
  have "rev (takeWhile p (rev xs) @ dropWhile p (rev xs)) = xs" by simp
  then show ?thesis by (simp only: rev_append)
qed

lemma strip_chars_hd:
  assumes "strip_chars p s \<noteq> []"
  shows "\<not> p (hd (strip_chars p s))"
proof -
  let ?t = "dropWhile p s"
  let ?u = "rev (dropWhile p (rev ?t))"
  from assms have u: "?u \<noteq> []" by (simp add: strip_chars_def)
  have t: "?t \<noteq> []"
  proof
    assume e: "?t = []"
    have "?u = []" unfolding e by simp
    with u show False by contradiction
  qed
  have "?u @ rev (takeWhile p (rev ?t)) = ?t" by (rule rstrip_prefix)
  with u have "hd ?u = hd ?t" by (metis hd_append2)
  moreover from t have "\<not> p (hd ?t)" by (rule hd_dropWhile)
  ultimately show ?thesis by (simp add: strip_chars_def)
qed

lemma strip_chars_last:
  assumes "strip_chars p s \<noteq> []"
  shows "\<not> p (last (strip_chars p s))"
proof -
  let ?d = "dropWhile p (rev (dropWhile p s))"
  from assms have d: "?d \<noteq> []" by (simp add: strip_chars_def)
  then have "\<not> p (hd ?d)" by (rule hd_dropWhile)
  with d show ?thesis by (simp add: strip_chars_def last_rev)
qed

text \<open>Stripping a stripped string changes nothing.\<close>

lemma strip_chars_idem: "strip_chars p (strip_chars p s) = strip_chars p s"
proof (cases "strip_chars p s = []")
  case True
  show ?thesis unfolding True by (simp add: strip_chars_def)
next
  case False
  let ?u = "strip_chars p s"
  from False have h: "\<not> p (hd ?u)" and l: "\<not> p (last ?u)"
    by (rule strip_chars_hd, rule strip_chars_last)
  from False h have 1: "dropWhile p ?u = ?u" by (simp add: dropWhile_eq_self_iff)
  from False l have 2: "dropWhile p (rev ?u) = rev ?u"
    by (simp add: dropWhile_eq_self_iff hd_rev)
  show ?thesis by (subst (1) strip_chars_def) (simp only: 1 2 rev_rev_ident)
qed

section \<open>Properties of parse\_sub\_category\<close>

lemma parse_str_nonempty: "[] \<notin> set (parse_str s)"
  by (auto simp: parse_str_def Let_def strip_def strip_chars_idem)

lemma parse_sub_category_Cell: "parse_sub_category strict (Cell c) = Inr (cell_tokens c)"
  by (cases c) (simp_all add: parse_sub_category_def)

text \<open>
  C10. For every input that is not a list (a missing value, a number, any string) and
  under either NumPy behaviour, \<open>parse_sub_category\<close> returns a list of tokens, and the
  empty string is not among them.
\<close>

theorem parse_sub_category_tokens_nonempty:
  "\<exists>toks. parse_sub_category strict (Cell c) = Inr toks \<and> [] \<notin> set toks"
  by (cases c) (simp_all add: parse_sub_category_def parse_str_nonempty)



text \<open>
  C9. The output of \<open>parse_sub_category\<close> on \<^verbatim>\<open>"A, B"\<close> is the list \<^verbatim>\<open>["A", "B"]\<close>. Given
  that list, the function raises \<^verbatim>\<open>ValueError\<close> at its first test, under either NumPy
  behaviour, and never reaches the line that returns a list as it is; so it does for
  every list of two or more strings. A list of one string does come back unchanged.
\<close>

theorem parse_sub_category_twice_raises:
  "parse_sub_category strict (Cell (Str ''A, B'')) = Inr [''A'', ''B'']
   \<and> parse_sub_category strict (Lst [''A'', ''B'']) = Inl ValueError
   \<and> parse_sub_category strict (Lst (x # y # zs)) = Inl ValueError
   \<and> parse_sub_category strict (Lst [x]) = Inr [x]"
  by (simp add: parse_eval)

section \<open>Properties of the table primitives\<close>

lemmas strip_eval = strip_def strip_chars_def is_space_def split_def

lemmas scenario_eval =
  scenario_table_def scenario_table_3_def scenario_columns_def no_language_table_def
  scenario_record_1_def scenario_record_2_def scenario_record_3_def dtype_of_def

lemmas state_scenario_eval =
  state_scenario_base_def state_scenario_geo_def state_scenario_geocoder_def
  state_scenario_record_def zip_plus4_table_def trial.extend_def geo_trial.fields_def
  text_only_def
  five_digits_at_def is_digit_def unique_def dtype_of_def

lemma apply_series_total: "apply_series (\<lambda>x. Inr (g x)) xs = Inr (map g xs)"
  by (induction xs) simp_all

lemma filter_by_flags: "map fst (filter snd (zip xs (map p xs))) = filter p xs"
  by (induction xs) simp_all

lemma length_concat_map: "length (concat (map f xs)) = sum_list (map (\<lambda>x. length (f x)) xs)"
  by (induction xs) simp_all

lemma length_filter_concat_map:
  "length (filter p (concat (map f xs))) = sum_list (map (\<lambda>x. length (filter p (f x))) xs)"
  by (induction xs) simp_all

lemma count_list_filter: "count_list (filter p xs) x = (if p x then count_list xs x else 0)"
  by (induction xs) simp_all

lemma map2_self: "map2 f xs (map g xs) = map (\<lambda>x. f x (g x)) xs"
  by (induction xs) simp_all

section \<open>Sub-category view and selection\<close>

lemma sub_cat_df_eq:
  "sub_cat_df strict T =
     Inr (T\<lparr>rows := concat (map (\<lambda>r. explode_row r (cell_tokens (sub_category r))) (rows T))\<rparr>)"
  by (simp add: sub_cat_df_def parse_sub_category_Cell apply_series_total map2_self)

lemma sub_cat_filtered_df_eq:
  "sub_cat_filtered_df strict T sel =
     Inr (if sel = ''All Sub-Categories'' then T
          else T\<lparr>rows := filter (\<lambda>r. sel \<in> set (cell_tokens (sub_category r))) (rows T)\<rparr>)"
  by (simp add: sub_cat_filtered_df_def parse_sub_category_Cell apply_series_total filter_by_flags)

lemma length_explode_row: "length (explode_row r toks) = max 1 (length toks)"
  by (cases toks) (simp_all add: explode_row_def)

lemma present_explode_row:
  "length (filter (\<lambda>e. sub_category e \<noteq> NaN) (explode_row r toks)) = length toks"
  by (simp add: explode_row_def)

text \<open>
  C3, as the claim states it, fails: \<^verbatim>\<open>explode\<close> keeps a record whose list of tokens is
  empty, as one row with a missing sub-category. The three records of
  \<open>scenario_table_3\<close> have two, one and no tokens, and the exploded view has four rows.
\<close>

theorem sub_cat_df_keeps_record_without_tokens:
  "sub_cat_df False scenario_table_3 =
     Inr \<lparr>columns = scenario_columns,
          rows = [scenario_record_1\<lparr>sub_category := Str ''Hypertension''\<rparr>,
                  scenario_record_1\<lparr>sub_category := Str ''Stroke''\<rparr>,
                  scenario_record_2 None,
                  scenario_record_3]\<rparr>
   \<and> map (\<lambda>r. parse_sub_category False (Cell (sub_category r))) (rows scenario_table_3)
       = [Inr [''Hypertension'', ''Stroke''], Inr [''Hypertension''], Inr []]"
  by (simp add: sub_cat_df_def explode_row_def scenario_eval parse_eval)

text \<open>
  C3, amended. On a cell of the table \<open>parse_sub_category\<close> returns the tokens
  \<open>cell_tokens\<close>. The exploded view has, for every record, one row per token, and one row
  with a missing sub-category when the record has no token: its row count is the sum over
  the records of the larger of 1 and the number of tokens. Its rows with a sub-category
  number the sum over the records of the number of tokens, so a record without tokens
  contributes none of them.
\<close>

theorem sub_cat_df_row_count:
  "parse_sub_category strict (Cell c) = Inr (cell_tokens c)
   \<and> (\<exists>E. sub_cat_df strict T = Inr E
        \<and> length (rows E) = (\<Sum>r\<leftarrow>rows T. max 1 (length (cell_tokens (sub_category r))))
        \<and> length (filter (\<lambda>e. sub_category e \<noteq> NaN) (rows E))
            = (\<Sum>r\<leftarrow>rows T. length (cell_tokens (sub_category r))))"
  by (simp add: sub_cat_df_eq parse_sub_category_Cell length_concat_map length_filter_concat_map
        length_explode_row present_explode_row)

text \<open>
  C6. On a cell of the table \<open>parse_sub_category\<close> returns the tokens \<open>cell_tokens\<close>.
  Selecting a sub-category never raises; for a token other than the sentinel the result
  holds the rows of the table given (not of the exploded view) whose parsed sub-category
  contains the token, in their order. Every record is in the result as often as it is in
  the table when its tokens contain the selection, whatever the number of matching
  tokens, and not at all otherwise.
\<close>

theorem sub_cat_filtered_df_rows:
  "parse_sub_category strict (Cell c) = Inr (cell_tokens c)
   \<and> (\<exists>R. sub_cat_filtered_df strict T sel = Inr R
        \<and> rows R = (if sel = ''All Sub-Categories'' then rows T
                    else filter (\<lambda>r. sel \<in> set (cell_tokens (sub_category r))) (rows T))
        \<and> count_list (rows R) r
            = (if sel = ''All Sub-Categories'' \<or> sel \<in> set (cell_tokens (sub_category r))
               then count_list (rows T) r else 0))"
  by (simp add: sub_cat_filtered_df_eq parse_sub_category_Cell count_list_filter)

text \<open>
  C7. Each of the three selectors returns the table it was given, unchanged, when the
  sentinel of that selector is chosen.
\<close>

theorem all_sentinel_identity:
  "filtered_df T ''All Categories'' = T
   \<and> sub_cat_filtered_df strict T ''All Sub-Categories'' = Inr T
   \<and> state_trials_original T G ''All States'' = T"
  by (simp add: filtered_df_def sub_cat_filtered_df_def state_trials_original_def)

section \<open>Other-language counts\<close>

lemma count_other_languages_total:
  "map_sum id fst (count_other_languages T)
     = (case dtype_of T ''other_language_criteria'' of
          None \<Rightarrow> Inr 0
        | Some dt \<Rightarrow>
            if dt = Object
            then Inr (length (filter (\<lambda>r. other_language_criteria r \<noteq> None) (rows T)))
            else Inl AttributeError)"
  by (simp add: count_other_languages_def Let_def filter_map comp_def split: option.splits)

text \<open>
  C1. The claim asks for \<open>trials_with_other_language = 0\<close> on a table in which no record
  names another language. When that table is what \<^verbatim>\<open>read_csv\<close> makes of a file whose
  \<open>other_language_criteria\<close> fields are all empty, the column is of type \<open>Float64\<close> and the
  code raises \<^verbatim>\<open>AttributeError\<close> at \<^verbatim>\<open>.str\<close> instead of returning a count. In general the
  code returns the number of records whose \<open>other_language_criteria\<close> is not missing when
  the column is of type \<open>Object\<close>, zero counts when the table has no such column, and
  raises on a numeric column. On the two-record scenario as \<^verbatim>\<open>read_csv\<close> loads it (the
  empty field of record 2 is missing) the results are 1, 1 and \<^verbatim>\<open>{"Spanish": 1}\<close>.
\<close>

theorem count_other_languages_raises_on_empty_column:
  "count_other_languages no_language_table = Inl AttributeError
   \<and> length (filter (\<lambda>r. other_language_criteria r \<noteq> None) (rows no_language_table)) = 0
   \<and> map_sum id fst (count_other_languages T)
       = (case dtype_of T ''other_language_criteria'' of
            None \<Rightarrow> Inr 0
          | Some dt \<Rightarrow>
              if dt = Object
              then Inr (length (filter (\<lambda>r. other_language_criteria r \<noteq> None) (rows T)))
              else Inl AttributeError)
   \<and> count_other_languages (scenario_table None) = Inr (1, 1, [(''Spanish'', 1)])"
proof -
  have a: "count_other_languages no_language_table = Inl AttributeError"
    by (simp add: count_other_languages_def scenario_eval)
  have b: "length (filter (\<lambda>r. other_language_criteria r \<noteq> None) (rows no_language_table)) = 0"
    by (simp add: scenario_eval)
  have s: "count_other_languages (scenario_table None) = Inr (1, 1, [(''Spanish'', 1)])"
    by (simp add: count_other_languages_def scenario_eval value_counts_def unique_def strip_eval)
  from a b count_other_languages_total[of T] s show ?thesis by (simp only: simp_thms)
qed

section \<open>Geographical table\<close>























section \<open>Selection by state\<close>

lemma state_rows:
  "rows (state_trials_original O_df G s) =
     (if s = ''All States'' then rows O_df
      else filter (\<lambda>r. idx r \<in> set (map idx (filter (\<lambda>g. state_code g = Str s) (rows G))))
                  (rows O_df))"
  by (simp add: state_trials_original_def)

lemma idx_filter_Int:
  "set (map idx (filter (\<lambda>r. idx r \<in> A) xs)) = set (map idx xs) \<inter> A"
  by auto

lemma scenario_load:
  "load_geographical_data state_scenario_geocoder num_str state_scenario_base
     = Inr state_scenario_geo"
  by (simp add: load_geographical_data_def state_scenario_eval)

text \<open>
  C5. For a state code, the selection holds the rows of the base table whose identifier
  is the identifier of a geo record with that state code; its identifiers are the
  identifiers of the base table intersected with those of the geo records of the state.
  In the scenario the base table has the identifiers 1, 2 and 3, the geo table built from
  it keeps 1 and 3, both in California, and selecting \<^verbatim>\<open>CA\<close> gives the records 1 and 3.
\<close>

theorem state_trials_original_ids:
  "rows (state_trials_original base geo s) =
     (if s = ''All States'' then rows base
      else filter (\<lambda>r. idx r \<in> set (map idx (filter (\<lambda>g. state_code g = Str s) (rows geo))))
                  (rows base))
   \<and> set (map idx (rows (state_trials_original base geo s))) =
     (if s = ''All States'' then set (map idx (rows base))
      else set (map idx (rows base))
           \<inter> set (map idx (filter (\<lambda>g. state_code g = Str s) (rows geo))))
   \<and> load_geographical_data state_scenario_geocoder num_str state_scenario_base
       = Inr state_scenario_geo
   \<and> map idx (rows state_scenario_base) = [1, 2, 3]
   \<and> map idx (rows state_scenario_geo) = [1, 3]
   \<and> map state_code (rows state_scenario_geo) = [Str ''CA'', Str ''CA'']
   \<and> map idx (rows (state_trials_original state_scenario_base state_scenario_geo ''CA'')) = [1, 3]"
proof -
  have a: "rows (state_trials_original base geo s) =
     (if s = ''All States'' then rows base
      else filter (\<lambda>r. idx r \<in> set (map idx (filter (\<lambda>g. state_code g = Str s) (rows geo))))
                  (rows base))" by (rule state_rows)
  have b: "set (map idx (rows (state_trials_original base geo s))) =
     (if s = ''All States'' then set (map idx (rows base))
      else set (map idx (rows base))
           \<inter> set (map idx (filter (\<lambda>g. state_code g = Str s) (rows geo))))"
    unfolding state_rows by (simp only: idx_filter_Int if_distrib[of "\<lambda>x. set (map idx x)"])
  have c: "map idx (rows state_scenario_base) = [1, 2, 3]"
    by (simp add: state_scenario_eval)
  have d: "map idx (rows state_scenario_geo) = [1, 3]"
      "map state_code (rows state_scenario_geo) = [Str ''CA'', Str ''CA'']"
    by (simp_all add: state_scenario_eval)
  have e: "map idx (rows (state_trials_original state_scenario_base state_scenario_geo ''CA'')) = [1, 3]"
    by (simp add: state_trials_original_def state_scenario_eval)
  from a b scenario_load[of num_str] c d e show ?thesis by (simp only: simp_thms)
qed

section \<open>Percentages and averages\<close>

lemma truediv_zero: "(truediv b = Raised ZeroDivisionError) = (b = 0)"
  by (simp add: truediv_def)

lemma truediv_zero': "(Raised ZeroDivisionError = truediv b) = (b = 0)"
  by (simp add: truediv_def)

lemma caption_ok: "Raised ZeroDivisionError \<noteq> caption n"
  by (simp add: caption_def truediv_def)

lemma avg_langs_ok: "Raised ZeroDivisionError \<noteq> avg_langs n"
  by (simp add: avg_langs_def truediv_def)

lemma lang_percentages_ok:
  "(lc \<noteq> [] \<Longrightarrow> 0 < n) \<Longrightarrow> Raised ZeroDivisionError \<notin> set (lang_percentages n lc)"
  by (auto simp: lang_percentages_def truediv_zero')

lemma value_counts_Nil: "(value_counts xs = []) = (xs = [])"
proof -
  have "(sort_key f ys = []) = (ys = [])" for f :: "'a \<times> nat \<Rightarrow> int" and ys
    by (metis length_0_conv length_sort)
  then show ?thesis by (simp add: value_counts_def unique_def)
qed

lemma dropna_Nil:
  "concat (map (\<lambda>c. case c of None \<Rightarrow> [] | Some s \<Rightarrow> [s]) col) \<noteq> []
   \<Longrightarrow> 0 < length (filter (\<lambda>c. c \<noteq> None) col)"
  by (induction col) (auto split: option.splits)

text \<open>A language that was counted came from a record that names a language.\<close>

lemma counts_guard:
  assumes eq: "count_other_languages df = Inr (n, m, lc)" and ne: "lc \<noteq> []"
  shows "0 < n"
proof (cases "dtype_of df ''other_language_criteria''")
  case None
  with eq ne show ?thesis by (simp add: count_other_languages_def)
next
  case (Some dt)
  let ?col = "map other_language_criteria (rows df)"
  let ?dropped = "concat (map (\<lambda>c. case c of None \<Rightarrow> [] | Some s \<Rightarrow> [s]) ?col)"
  from Some eq have n: "n = length (filter (\<lambda>c. c \<noteq> None) ?col)"
    and lc: "lc = value_counts (map strip (concat (map (split (CHR '','')) ?dropped)))"
    by (simp_all add: count_other_languages_def Let_def split: if_splits)
  from ne have "concat (map (split (CHR '','')) ?dropped) \<noteq> []"
    unfolding lc value_counts_Nil by simp
  then have "?dropped \<noteq> []" by (rule contrapos_nn) simp
  then have "0 < length (filter (\<lambda>c. c \<noteq> None) ?col)" by (rule dropna_Nil)
  with n show ?thesis by simp
qed

lemma counted_metrics_ok:
  assumes c: "Raised ZeroDivisionError \<noteq> c"
  shows "Raised ZeroDivisionError \<notin>
     set (case count_other_languages df of
            Inl e \<Rightarrow> [Raised e]
          | Inr (total_with_other, total_languages, language_counts) \<Rightarrow>
              [c, avg_langs total_with_other]
              @ lang_percentages total_with_other language_counts)"
proof (cases "count_other_languages df")
  case (Inl e)
  have "e \<noteq> ZeroDivisionError"
    using Inl by (auto simp: count_other_languages_def Let_def split: option.splits if_splits)
  with Inl show ?thesis by simp
next
  case (Inr t)
  obtain n m lc where t: "t = (n, m, lc)" by (cases t)
  from Inr have eq: "count_other_languages df = Inr (n, m, lc)" by (simp add: t)
  from counts_guard[OF eq] have "Raised ZeroDivisionError \<notin> set (lang_percentages n lc)"
    by (rule lang_percentages_ok)
  with c show ?thesis by (simp add: eq avg_langs_ok)
qed

lemma tab1_ok: "Raised ZeroDivisionError \<notin> set (tab1_metrics df)"
  using counted_metrics_ok[OF caption_ok[of "length (rows df)"], where df=df]
  by (simp add: tab1_metrics_def caption_ok)

lemma state_nonempty: "rows (state_trials_original O_df G s) \<noteq> [] \<Longrightarrow> rows O_df \<noteq> []"
  by (auto simp: state_trials_original_def split: if_splits)

lemma state_metrics_ok:
  assumes "0 < total_trials \<Longrightarrow> 0 < len_original"
  shows "Raised ZeroDivisionError \<notin>
           set (state_metrics total_trials len_original (count_other_languages df))"
proof (cases total_trials)
  case 0
  then show ?thesis by (simp add: state_metrics_def)
next
  case (Suc k)
  with assms have "len_original \<noteq> 0" by simp
  moreover have "Raised ZeroDivisionError \<noteq> truediv (int (Suc k))"
    by (simp add: truediv_def)
  from counted_metrics_ok[OF this, where df=df]
  have "Raised ZeroDivisionError \<notin>
     set (case count_other_languages df of
            Inl e \<Rightarrow> [Raised e]
          | Inr (total_with_other, total_languages, language_counts) \<Rightarrow>
              [truediv (int (Suc k)), avg_langs total_with_other]
              @ lang_percentages total_with_other language_counts)" .
  ultimately show ?thesis
    unfolding state_metrics_def Suc by (simp add: truediv_zero')
qed

lemma tab2_ok: "Raised ZeroDivisionError \<notin> set (tab2_metrics O_df G s)"
proof (cases "rows G \<noteq> [] \<and> dtype_of G ''state_code'' \<noteq> None")
  case False
  then have "tab2_metrics O_df G s = []" unfolding tab2_metrics_def by (rule if_not_P)
  then show ?thesis by simp
next
  case True
  let ?sel = "state_trials_original O_df G s"
  have "0 < length (rows ?sel) \<Longrightarrow> 0 < length (rows O_df)"
    using state_nonempty[of O_df G s] by simp
  then have "Raised ZeroDivisionError \<notin>
      set (state_metrics (length (rows ?sel)) (length (rows O_df)) (count_other_languages ?sel))"
    by (rule state_metrics_ok)
  with True show ?thesis by (simp add: tab2_metrics_def Let_def)
qed

text \<open>
  C8, as the claim states it, fails. The guard of the language percentages is that
  \<^verbatim>\<open>language_counts\<close> is not empty, the guard of the share of all trials is that
  \<^verbatim>\<open>total_trials\<close> is positive: neither tests the denominator of the division it guards,
  and each lets a zero denominator through when given one. Where a caption is not
  computed nothing is put in its place; only the average has \<^verbatim>\<open>N/A\<close>.
\<close>

theorem guards_do_not_test_their_denominator:
  "lang_percentages 0 [(''Spanish'', 1)] = [Raised ZeroDivisionError]
   \<and> hd (state_metrics 1 0 (Inr (0, 0, []))) = Raised ZeroDivisionError
   \<and> caption 0 = Nothing_shown
   \<and> caption 0 \<noteq> Not_applicable"
  by (simp add: lang_percentages_def state_metrics_def caption_def truediv_def)

text \<open>
  C8, amended. No division by zero occurs in the first tab (for any selection) or in the
  second tab (for any base table, geo table and state). A caption of a selection is
  computed when the selection has a trial and is left out otherwise, with nothing in its
  place; the average is computed when \<^verbatim>\<open>total_with_other\<close> is positive, and \<^verbatim>\<open>N/A\<close> is shown
  otherwise. The language percentages are computed when \<^verbatim>\<open>language_counts\<close> is not empty
  and the share of all trials when \<^verbatim>\<open>total_trials\<close> is positive; on the values that the
  program computes from a table these conditions come with a positive denominator.
\<close>

theorem no_division_by_zero:
  "Raised ZeroDivisionError \<notin> set (tab1_metrics df)
   \<and> Raised ZeroDivisionError \<notin> set (tab2_metrics original_df geo_df selected_state)
   \<and> caption n = (if n > 0 then Quotient else Nothing_shown)
   \<and> avg_langs n = (if n > 0 then Quotient else Not_applicable)"
proof -
  have c: "caption n = (if n > 0 then Quotient else Nothing_shown)"
    by (simp add: caption_def truediv_def)
  have a: "avg_langs n = (if n > 0 then Quotient else Not_applicable)"
    by (simp add: avg_langs_def truediv_def)
  from tab1_ok[of df] tab2_ok[of original_df geo_df selected_state] c a
  show ?thesis by (simp only: simp_thms)
qed

end
